theory Spec2Isabelle
  imports Complex_Main
begin

section \<open>Data model\<close>

text \<open>
  One row of the OHLCV frame built by \<open>fetch_ohlcv_df\<close>: the columns
  \<open>ts, open, high, low, close, volume\<close>. The exchange delivers finite numbers; they
  are modelled as reals with exact arithmetic (rounding of the binary floating-point
  operations is not modelled). \<open>ts\<close> is the candle's opening time in milliseconds.
  The column \<open>open\<close> is named \<open>open_price\<close> here, and \<open>close\<close> accordingly
  \<open>close_price\<close>, since \<open>open\<close> is a constant of the library.
\<close>

record candle =
  ts :: int
  open_price :: real
  high :: real
  low :: real
  close_price :: real
  volume :: real

datatype py_error = IndexError | FetchError

section \<open>Candle pattern logic\<close>

definition is_hammer_candle :: "candle \<Rightarrow> bool" where
  "is_hammer_candle c =
     (let o' = open_price c; h = high c; l = low c; cl = close_price c;
          body = \<bar>cl - o'\<bar>
      in if body = 0 then False
         else (let lower = min o' cl - l;
                   upper = h - max o' cl
               in (lower > body * (18 / 10)) \<and> (upper < body * (6 / 10))))"

definition is_shooting_star_candle :: "candle \<Rightarrow> bool" where
  "is_shooting_star_candle c =
     (let o' = open_price c; h = high c; l = low c; cl = close_price c;
          body = \<bar>cl - o'\<bar>
      in if body = 0 then False
         else (let upper = h - max o' cl;
                   lower = min o' cl - l
               in (upper > body * (18 / 10)) \<and> (lower < body * (6 / 10))))"

section \<open>Scheduling\<close>

text \<open>
  \<open>seconds_to_next_15min\<close> reads the clock itself (\<open>int(time.time())\<close>); the
  model takes that reading as its argument. Python's \<open>%\<close> with a positive modulus
  yields a result in \<open>0..899\<close>, as \<open>mod\<close> on \<open>int\<close> does.
\<close>

definition seconds_to_next_15min :: "int \<Rightarrow> int" where
  "seconds_to_next_15min now =
     (let rem = now mod (15 * 60) in if rem \<noteq> 0 then (15 * 60) - rem else 0)"

text \<open>
  The tail of one pass of the loop in \<open>main\<close>: the argument of the final
  \<open>time.sleep\<close>, given the clock reading at the end of the cycle.
\<close>

definition cycle_sleep :: "int \<Rightarrow> int" where
  "cycle_sleep now =
     (let to_sleep = seconds_to_next_15min now;
          to_sleep = (if to_sleep = 0 then 15 * 60 else to_sleep)
      in to_sleep + 1)"

text \<open>
  The alignment before the first cycle: \<open>if wait: time.sleep(wait + 1)\<close>.
  \<open>None\<close> stands for not sleeping at all.
\<close>

definition initial_sleep :: "int \<Rightarrow> int option" where
  "initial_sleep now =
     (let wait = seconds_to_next_15min now in if wait \<noteq> 0 then Some (wait + 1) else None)"

section \<open>Floating-point values of the indicator columns\<close>

text \<open>
  The indicator columns hold Python floats, and the RSI computation divides two columns
  element by element. That division never raises: it yields an infinity for a nonzero
  numerator over zero and NaN for zero over zero, and the first rows of a rolling mean
  are NaN. The type \<open>fl\<close> keeps these special values beside the finite ones. Finite
  arithmetic is exact, overflow is not modelled, and zero carries no sign: in
  \<open>100 - 100 / (1 + rs)\<close> both infinities for \<open>rs\<close> give the same result.
\<close>

datatype fl = Fin real | PInf | NInf | NaN

fun fl_neg :: "fl \<Rightarrow> fl" where
  "fl_neg (Fin a) = Fin (- a)"
| "fl_neg PInf = NInf"
| "fl_neg NInf = PInf"
| "fl_neg NaN = NaN"

fun fl_add :: "fl \<Rightarrow> fl \<Rightarrow> fl" where
  "fl_add NaN y = NaN"
| "fl_add x NaN = NaN"
| "fl_add (Fin a) (Fin b) = Fin (a + b)"
| "fl_add PInf NInf = NaN"
| "fl_add NInf PInf = NaN"
| "fl_add PInf y = PInf"
| "fl_add x PInf = PInf"
| "fl_add NInf y = NInf"
| "fl_add x NInf = NInf"

definition fl_sub :: "fl \<Rightarrow> fl \<Rightarrow> fl" where
  "fl_sub x y = fl_add x (fl_neg y)"

fun fl_mul :: "fl \<Rightarrow> fl \<Rightarrow> fl" where
  "fl_mul NaN y = NaN"
| "fl_mul x NaN = NaN"
| "fl_mul (Fin a) (Fin b) = Fin (a * b)"
| "fl_mul (Fin a) PInf = (if a = 0 then NaN else if a > 0 then PInf else NInf)"
| "fl_mul (Fin a) NInf = (if a = 0 then NaN else if a > 0 then NInf else PInf)"
| "fl_mul PInf (Fin b) = (if b = 0 then NaN else if b > 0 then PInf else NInf)"
| "fl_mul NInf (Fin b) = (if b = 0 then NaN else if b > 0 then NInf else PInf)"
| "fl_mul PInf PInf = PInf"
| "fl_mul PInf NInf = NInf"
| "fl_mul NInf PInf = NInf"
| "fl_mul NInf NInf = PInf"

fun fl_div :: "fl \<Rightarrow> fl \<Rightarrow> fl" where
  "fl_div NaN y = NaN"
| "fl_div x NaN = NaN"
| "fl_div (Fin a) (Fin b) =
     (if b = 0 then (if a = 0 then NaN else if a > 0 then PInf else NInf) else Fin (a / b))"
| "fl_div (Fin a) PInf = Fin 0"
| "fl_div (Fin a) NInf = Fin 0"
| "fl_div PInf (Fin b) = (if b \<ge> 0 then PInf else NInf)"
| "fl_div NInf (Fin b) = (if b \<ge> 0 then NInf else PInf)"
| "fl_div x y = NaN"

text \<open>Comparisons with NaN are false, whichever side it is on.\<close>

fun fl_le :: "fl \<Rightarrow> fl \<Rightarrow> bool" where
  "fl_le NaN y = False"
| "fl_le x NaN = False"
| "fl_le (Fin a) (Fin b) = (a \<le> b)"
| "fl_le NInf y = True"
| "fl_le x PInf = True"
| "fl_le x y = False"

fun fl_lt :: "fl \<Rightarrow> fl \<Rightarrow> bool" where
  "fl_lt NaN y = False"
| "fl_lt x NaN = False"
| "fl_lt (Fin a) (Fin b) = (a < b)"
| "fl_lt PInf y = False"
| "fl_lt x NInf = False"
| "fl_lt x y = True"

definition fl_ge :: "fl \<Rightarrow> fl \<Rightarrow> bool" where
  "fl_ge x y = fl_le y x"

text \<open>\<open>Series.clip(lower=lo)\<close> and \<open>Series.clip(upper=hi)\<close> on one element: NaN stays.\<close>

definition clip_lower :: "real \<Rightarrow> fl \<Rightarrow> fl" where
  "clip_lower lo x = (if fl_lt x (Fin lo) then Fin lo else x)"

definition clip_upper :: "real \<Rightarrow> fl \<Rightarrow> fl" where
  "clip_upper hi x = (if fl_lt (Fin hi) x then Fin hi else x)"

section \<open>Sequences\<close>

definition bind_err :: "py_error + 'a \<Rightarrow> ('a \<Rightarrow> py_error + 'b) \<Rightarrow> py_error + 'b" where
  "bind_err m f = (case m of Inl e \<Rightarrow> Inl e | Inr x \<Rightarrow> f x)"

text \<open>
  Positional access \<open>xs[i]\<close> and \<open>.iloc[i]\<close>: a negative position counts from the
  end, and a position outside the sequence raises.
\<close>

definition iloc :: "'a list \<Rightarrow> int \<Rightarrow> py_error + 'a" where
  "iloc xs i =
     (let pos = (if i < 0 then int (length xs) + i else i)
      in if pos < 0 \<or> int (length xs) \<le> pos then Inl IndexError else Inr (xs ! nat pos))"

text \<open>The slice \<open>xs[-k:]\<close> for positive \<open>k\<close>: the last \<open>k\<close> elements, or all of them.\<close>

definition tail_slice :: "nat \<Rightarrow> 'a list \<Rightarrow> 'a list" where
  "tail_slice k xs = drop (length xs - k) xs"

fun fl_sum :: "fl list \<Rightarrow> fl" where
  "fl_sum [] = Fin 0"
| "fl_sum (x # xs) = fl_add x (fl_sum xs)"

text \<open>\<open>Series.mean()\<close>: NaN entries are skipped, and the mean of nothing is NaN.\<close>

definition mean :: "fl list \<Rightarrow> fl" where
  "mean xs =
     (let obs = filter (\<lambda>x. x \<noteq> NaN) xs
      in if obs = [] then NaN else fl_div (fl_sum obs) (Fin (real (length obs))))"

section \<open>Indicators\<close>

definition VOLUME_MULTIPLIER :: real where "VOLUME_MULTIPLIER = 9 / 10"
definition RSI_PERIOD :: nat where "RSI_PERIOD = 14"
definition RSI_OVERSOLD :: real where "RSI_OVERSOLD = 40"
definition RSI_OVERBOUGHT :: real where "RSI_OVERBOUGHT = 60"
definition EMA_FAST :: nat where "EMA_FAST = 20"
definition EMA_SLOW :: nat where "EMA_SLOW = 50"

text \<open>\<open>Series.diff()\<close>: the first entry is NaN, each later one the step from its predecessor.\<close>

fun diff :: "real list \<Rightarrow> fl list" where
  "diff [] = []"
| "diff (x # xs) = NaN # map2 (\<lambda>a b. fl_sub (Fin a) (Fin b)) xs (x # xs)"

text \<open>
  \<open>Series.rolling(period, min_periods=min_periods).mean()\<close>: entry \<open>i\<close> looks at
  the \<open>period\<close> entries ending at \<open>i\<close> (fewer at the start), and is NaN unless
  at least \<open>min_periods\<close> of them are not NaN.
\<close>

definition rolling_window :: "nat \<Rightarrow> 'a list \<Rightarrow> nat \<Rightarrow> 'a list" where
  "rolling_window period xs i = drop (Suc i - period) (take (Suc i) xs)"

definition rolling_mean :: "nat \<Rightarrow> nat \<Rightarrow> fl list \<Rightarrow> fl list" where
  "rolling_mean period min_periods xs =
     map (\<lambda>i. let obs = filter (\<lambda>x. x \<noteq> NaN) (rolling_window period xs i)
              in if length obs \<ge> min_periods \<and> obs \<noteq> []
                 then fl_div (fl_sum obs) (Fin (real (length obs))) else NaN)
         [0..<length xs]"

definition compute_rsi :: "real list \<Rightarrow> nat \<Rightarrow> fl list" where
  "compute_rsi series period =
     (let delta = diff series;
          up = map (clip_lower 0) delta;
          down = map (\<lambda>x. fl_mul (Fin (- 1)) (clip_upper 0 x)) delta;
          ma_up = rolling_mean period period up;
          ma_down = rolling_mean period period down;
          rs = map2 fl_div ma_up ma_down
      in map (\<lambda>r. fl_sub (Fin 100) (fl_div (Fin 100) (fl_add (Fin 1) r))) rs)"

text \<open>
  The two rolling means that \<open>compute_rsi\<close> divides (its locals \<open>ma_up\<close> and
  \<open>ma_down\<close>), as functions of its arguments.
\<close>

definition ma_up :: "real list \<Rightarrow> nat \<Rightarrow> fl list" where
  "ma_up series period = rolling_mean period period (map (clip_lower 0) (diff series))"

definition ma_down :: "real list \<Rightarrow> nat \<Rightarrow> fl list" where
  "ma_down series period =
     rolling_mean period period (map (\<lambda>x. fl_mul (Fin (- 1)) (clip_upper 0 x)) (diff series))"

text \<open>
  \<open>Series.ewm(span=period, adjust=False).mean()\<close>: the first value is the first
  observation, and each later one is \<open>(1 - alpha) * previous + alpha * x\<close> with
  \<open>alpha = 2 / (period + 1)\<close>.
\<close>

fun ewm_from :: "real \<Rightarrow> real \<Rightarrow> real list \<Rightarrow> real list" where
  "ewm_from alpha prev [] = []"
| "ewm_from alpha prev (x # xs) =
     (let y = (1 - alpha) * prev + alpha * x in y # ewm_from alpha y xs)"

definition compute_ema :: "real list \<Rightarrow> nat \<Rightarrow> real list" where
  "compute_ema series period =
     (case series of [] \<Rightarrow> [] | x # xs \<Rightarrow> x # ewm_from (2 / (real period + 1)) x xs)"

section \<open>Trend confirmation\<close>

text \<open>
  \<open>closes[-1]\<close> and \<open>closes[0]\<close> raise on an empty window. Any direction other
  than \<open>''down''\<close> takes the second branch.
\<close>

definition trend_confirmation :: "candle list \<Rightarrow> string \<Rightarrow> int \<Rightarrow> py_error + bool" where
  "trend_confirmation candles direction required_count =
     (let closes = map close_price candles
      in if direction = ''down'' then
           (let count_bear = (\<Sum>c \<leftarrow> filter (\<lambda>c. close_price c < open_price c) candles. (1::int))
            in bind_err (iloc closes (- 1)) (\<lambda>cl_last.
               bind_err (iloc closes 0) (\<lambda>cl_first.
               let falling = cl_last < cl_first
               in Inr ((count_bear \<ge> required_count) \<and> falling))))
         else
           (let count_bull = (\<Sum>c \<leftarrow> filter (\<lambda>c. close_price c > open_price c) candles. (1::int))
            in bind_err (iloc closes (- 1)) (\<lambda>cl_last.
               bind_err (iloc closes 0) (\<lambda>cl_first.
               let rising = cl_last > cl_first
               in Inr ((count_bull \<ge> required_count) \<and> rising)))))"

section \<open>Analysis of one pair\<close>

text \<open>
  \<open>fetch_ohlcv_df\<close> asks the exchange for the rows and builds the frame from all of
  them, in the order received; an error of the exchange call propagates. The model takes
  the outcome of the exchange call as its argument.
\<close>

definition fetch_ohlcv_df :: "py_error + candle list \<Rightarrow> py_error + candle list" where
  "fetch_ohlcv_df response = (case response of Inl e \<Rightarrow> Inl e | Inr data \<Rightarrow> Inr data)"

text \<open>
  A signal is the tuple appended to \<open>signals\<close>. \<open>tme\<close> is the pattern candle's
  index entry; its rendering as text is left out. The first component, \<open>typ\<close> in
  the loop of \<open>main\<close>, is the field \<open>typ_sig\<close>.
\<close>

record signal =
  typ_sig :: string
  direction :: string
  price :: real
  tme :: int
  meta_rsi :: fl
  meta_avg_vol :: fl
  meta_last_vol :: real

definition avg_volume :: "candle list \<Rightarrow> fl" where
  "avg_volume df =
     (let vols = map (\<lambda>c. Fin (volume c)) df
      in if length df \<ge> 20 then mean (tail_slice 20 vols) else mean vols)"

text \<open>
  The volume filter of \<open>analyze_pair\<close>. \<open>avg_vol\<close> is a float, hence never
  \<open>None\<close>, and the comparison decides.
\<close>

definition vol_ok :: "real \<Rightarrow> fl \<Rightarrow> bool" where
  "vol_ok last_vol avg_vol = fl_ge (Fin last_vol) (fl_mul avg_vol (Fin VOLUME_MULTIPLIER))"

definition analyze_pair :: "py_error + candle list \<Rightarrow> py_error + signal list" where
  "analyze_pair response =
     (case fetch_ohlcv_df response of
        Inl e \<Rightarrow> Inr []
      | Inr df \<Rightarrow>
          if length df < 6 then Inr []
          else
            (let last6 = tail_slice 6 df;
                 trend_candles = take 5 last6
             in bind_err (iloc last6 (- 1)) (\<lambda>pattern_candle.
                let last_vol = volume pattern_candle;
                    avg_vol = avg_volume df;
                    rsi = compute_rsi (map close_price df) RSI_PERIOD;
                    ema_fast_col = compute_ema (map close_price df) EMA_FAST;
                    ema_slow_col = compute_ema (map close_price df) EMA_SLOW
                in bind_err (iloc (map ts last6) (- 1)) (\<lambda>pattern_time.
                   let signals = [];
                       vol_ok = vol_ok last_vol avg_vol
                   in bind_err (iloc ema_fast_col (- 2)) (\<lambda>ema_fast.
                      bind_err (iloc ema_slow_col (- 2)) (\<lambda>ema_slow.
                      bind_err (iloc rsi (- 2)) (\<lambda>rsi_val.
                      bind_err
                        (if is_hammer_candle pattern_candle then
                           bind_err (trend_confirmation trend_candles ''down'' 3) (\<lambda>trend_ok.
                           let ema_ok = ema_fast < ema_slow;
                               rsi_ok = fl_le rsi_val (Fin RSI_OVERSOLD)
                           in if trend_ok \<and> ema_ok \<and> vol_ok \<and> rsi_ok
                              then Inr (signals @
                                     [\<lparr>typ_sig = ''HAMMER'', direction = ''LONG'',
                                       price = close_price pattern_candle, tme = pattern_time,
                                       meta_rsi = rsi_val, meta_avg_vol = avg_vol,
                                       meta_last_vol = last_vol\<rparr>])
                              else Inr signals)
                         else Inr signals) (\<lambda>signals.
                      bind_err
                        (if is_shooting_star_candle pattern_candle then
                           bind_err (trend_confirmation trend_candles ''up'' 3) (\<lambda>trend_ok.
                           let ema_ok = ema_fast > ema_slow;
                               rsi_ok = fl_ge rsi_val (Fin RSI_OVERBOUGHT)
                           in if trend_ok \<and> ema_ok \<and> vol_ok \<and> rsi_ok
                              then Inr (signals @
                                     [\<lparr>typ_sig = ''SHOOTING_STAR'', direction = ''SHORT'',
                                       price = close_price pattern_candle, tme = pattern_time,
                                       meta_rsi = rsi_val, meta_avg_vol = avg_vol,
                                       meta_last_vol = last_vol\<rparr>])
                              else Inr signals)
                         else Inr signals) (\<lambda>signals. Inr signals)))))))))"

text \<open>
  One pair's turn in the loop of \<open>main\<close>: the signals that are sent and logged. An
  exception escaping \<open>analyze_pair\<close> is caught and printed, and nothing is sent.
\<close>

definition scan_pair :: "py_error + candle list \<Rightarrow> signal list" where
  "scan_pair response = (case analyze_pair response of Inl e \<Rightarrow> [] | Inr signals \<Rightarrow> signals)"

definition scan_cycle :: "(py_error + candle list) list \<Rightarrow> signal list list" where
  "scan_cycle responses = map scan_pair responses"

section \<open>Fixtures\<close>

text \<open>
  What the exchange answers one second after the boundary at 13500000 ms: fifteen
  candles of earlier intervals, the last five of them falling, and the candle that
  opened at the boundary.
\<close>

definition falling_market :: "candle list" where
  "falling_market =
     map (\<lambda>i. \<lparr>ts = 900000 * int i, open_price = 111, high = 111, low = 110,
               close_price = 110, volume = 10\<rparr>) [0..<10]
     @ map (\<lambda>i. \<lparr>ts = 900000 * int i, open_price = 120 - real i, high = 120 - real i,
                 low = 119 - real i, close_price = 119 - real i, volume = 10\<rparr>) [10..<15]
     @ [\<lparr>ts = 13500000, open_price = 100, high = 201 / 2, low = 90, close_price = 99,
         volume = 10\<rparr>]"

text \<open>
  A market that falls and then turns: ten quiet candles, three bearish and two bullish
  ones, and a bullish hammer of thin volume. The five candles before the hammer hold three
  bearish ones; the five ending with the hammer hold two. The hammer's volume, 8.95, is at
  least 0.9 times the average of all sixteen volumes and below 0.9 times the average of
  the fifteen before it.
\<close>

definition late_turn_before :: "candle list" where
  "late_turn_before =
     map (\<lambda>i. \<lparr>ts = 900000 * int i, open_price = 111, high = 111, low = 110,
               close_price = 110, volume = 10\<rparr>) [0..<10]"

definition late_turn_window :: "candle list" where
  "late_turn_window =
     [\<lparr>ts = 9000000, open_price = 110, high = 110, low = 109, close_price = 109, volume = 10\<rparr>,
      \<lparr>ts = 9900000, open_price = 109, high = 109, low = 108, close_price = 108, volume = 10\<rparr>,
      \<lparr>ts = 10800000, open_price = 108, high = 108, low = 106, close_price = 106, volume = 10\<rparr>,
      \<lparr>ts = 11700000, open_price = 106, high = 213 / 2, low = 106, close_price = 213 / 2,
        volume = 10\<rparr>,
      \<lparr>ts = 12600000, open_price = 213 / 2, high = 107, low = 213 / 2, close_price = 107,
        volume = 10\<rparr>]"

definition late_turn_candle :: candle where
  "late_turn_candle =
     \<lparr>ts = 13500000, open_price = 99, high = 201 / 2, low = 90, close_price = 100,
       volume = 179 / 20\<rparr>"

definition late_turn_market :: "candle list" where
  "late_turn_market = late_turn_before @ late_turn_window @ [late_turn_candle]"

text \<open>Closing prices that rise by one at every step, and closing prices that never move.\<close>

definition rising_closes :: "real list" where
  "rising_closes = map real [1..<17]"

definition flat_closes :: "real list" where
  "flat_closes = replicate 15 100"

text \<open>A candle without a body: it opens and closes at the same price.\<close>

definition doji :: candle where
  "doji = \<lparr>ts = 0, open_price = 100, high = 101, low = 90, close_price = 100, volume = 10\<rparr>"

text \<open>
  A candle is closed once its interval of 15 minutes has fully elapsed; \<open>ts\<close> is
  its opening time and \<open>now_ms\<close> the time of evaluation, both in milliseconds.
\<close>

definition candle_closed :: "int \<Rightarrow> candle \<Rightarrow> bool" where
  "candle_closed now_ms c = (ts c + 15 * 60 * 1000 \<le> now_ms)"

section \<open>Pattern classifier\<close>

lemma hammer_iff:
  "is_hammer_candle c \<longleftrightarrow>
     \<bar>close_price c - open_price c\<bar> \<noteq> 0 \<and>
     min (open_price c) (close_price c) - low c > (18 / 10) * \<bar>close_price c - open_price c\<bar> \<and>
     high c - max (open_price c) (close_price c) < (6 / 10) * \<bar>close_price c - open_price c\<bar>"
  by (simp add: is_hammer_candle_def Let_def mult.commute)

lemma shooting_star_iff:
  "is_shooting_star_candle c \<longleftrightarrow>
     \<bar>close_price c - open_price c\<bar> \<noteq> 0 \<and>
     high c - max (open_price c) (close_price c) > (18 / 10) * \<bar>close_price c - open_price c\<bar> \<and>
     min (open_price c) (close_price c) - low c < (6 / 10) * \<bar>close_price c - open_price c\<bar>"
  by (simp add: is_shooting_star_candle_def Let_def mult.commute)

lemma not_both_patterns: "\<not> (is_hammer_candle c \<and> is_shooting_star_candle c)"
proof
  assume both: "is_hammer_candle c \<and> is_shooting_star_candle c"
  define body where "body = \<bar>close_price c - open_price c\<bar>"
  define lower where "lower = min (open_price c) (close_price c) - low c"
  have "(18 / 10) * body < lower" "lower < (6 / 10) * body"
    using both unfolding hammer_iff shooting_star_iff body_def lower_def by simp_all
  then have "body < 0" by linarith
  then show False by (simp add: body_def)
qed

section \<open>Sequences and errors\<close>

lemma iloc_last: "xs \<noteq> [] \<Longrightarrow> iloc xs (- 1) = Inr (last xs)"
  by (cases xs rule: rev_cases) (simp_all add: iloc_def nth_append)

lemma iloc_second_last: "2 \<le> length xs \<Longrightarrow> iloc xs (- 2) = Inr (xs ! (length xs - 2))"
  by (simp add: iloc_def nat_diff_distrib' flip: of_nat_diff)

lemma iloc_first: "xs \<noteq> [] \<Longrightarrow> iloc xs 0 = Inr (hd xs)"
  by (cases xs) (simp_all add: iloc_def)

lemma bind_err_Inr: "bind_err (Inr x) f = f x"
  by (simp add: bind_err_def)

lemma length_diff: "length (diff s) = length s"
  by (cases s) simp_all

lemma length_rolling_mean: "length (rolling_mean p m xs) = length xs"
  by (simp add: rolling_mean_def)

lemma length_compute_rsi: "length (compute_rsi s p) = length s"
  by (simp add: compute_rsi_def Let_def length_rolling_mean length_diff)

lemma length_ewm_from: "length (ewm_from a p xs) = length xs"
  by (induction xs arbitrary: p) (simp_all add: Let_def)

lemma length_compute_ema: "length (compute_ema s p) = length s"
  by (cases s) (simp_all add: compute_ema_def length_ewm_from)

lemma fl_sum_Fin: "fl_sum (map Fin xs) = Fin (sum_list xs)"
  by (induction xs) simp_all

lemma filter_Fin: "filter (\<lambda>x. x \<noteq> NaN) (map Fin xs) = map Fin xs"
  by (induction xs) simp_all

lemma mean_Fin: "xs \<noteq> [] \<Longrightarrow> mean (map Fin xs) = Fin (sum_list xs / real (length xs))"
  by (simp add: mean_def filter_Fin fl_sum_Fin)

lemma count_ones: "(\<Sum>c \<leftarrow> xs. (1::int)) = int (length xs)"
  by (induction xs) simp_all

lemma trend_confirmation_down:
  "candles \<noteq> [] \<Longrightarrow> trend_confirmation candles ''down'' k =
     Inr (k \<le> int (length (filter (\<lambda>c. close_price c < open_price c) candles)) \<and>
          close_price (last candles) < close_price (hd candles))"
  by (simp add: trend_confirmation_def Let_def iloc_last iloc_first bind_err_Inr count_ones
      last_map hd_map)

lemma trend_confirmation_up:
  "candles \<noteq> [] \<Longrightarrow> trend_confirmation candles ''up'' k =
     Inr (k \<le> int (length (filter (\<lambda>c. close_price c > open_price c) candles)) \<and>
          close_price (last candles) > close_price (hd candles))"
  by (simp add: trend_confirmation_def Let_def iloc_last iloc_first bind_err_Inr count_ones
      last_map hd_map)

lemma drop_tail_lt: "xs \<noteq> [] \<Longrightarrow> 0 < k \<Longrightarrow> length xs - k < length xs"
  by (cases xs) auto

lemma tail_slice_nonempty:
  assumes "xs \<noteq> []" and "0 < k"
  shows "tail_slice k xs \<noteq> []"
  using drop_tail_lt [OF assms] by (simp add: tail_slice_def)

lemma tail_slice_map: "tail_slice k (map f xs) = map f (tail_slice k xs)"
  by (simp add: tail_slice_def drop_map)

lemma last_tail_slice:
  assumes "xs \<noteq> []" and "0 < k"
  shows "last (tail_slice k xs) = last xs"
  using drop_tail_lt [OF assms] by (simp add: tail_slice_def)

lemma length_tail_slice: "length (tail_slice k xs) = min k (length xs)"
  by (simp add: tail_slice_def)

lemma avg_volume_eq:
  "df \<noteq> [] \<Longrightarrow> avg_volume df =
     Fin (sum_list (map volume (tail_slice 20 df)) / real (length (tail_slice 20 df)))"
proof -
  assume ne: "df \<noteq> []"
  have m: "map (\<lambda>c. Fin (volume c)) xs = map Fin (map volume xs)" for xs :: "candle list"
    by simp
  have small: "length df < 20 \<Longrightarrow> tail_slice 20 df = df"
    by (simp add: tail_slice_def)
  have ne': "map volume (tail_slice 20 df) \<noteq> []"
    using tail_slice_nonempty [OF ne, of 20] by simp
  show ?thesis
  proof (cases "20 \<le> length df")
    case True
    then show ?thesis
      using mean_Fin [OF ne'] by (simp add: avg_volume_def Let_def tail_slice_map m del: map_map)
  next
    case False
    then show ?thesis
      using mean_Fin [OF ne'] small by (simp add: avg_volume_def Let_def m del: map_map)
  qed
qed

section \<open>The result of the analysis in closed form\<close>

lemma analyze_pair_eq:
  assumes len: "6 \<le> length df"
  shows "analyze_pair (Inr df) =
    Inr ((if is_hammer_candle (last df) \<and>
             trend_confirmation (take 5 (tail_slice 6 df)) ''down'' 3 = Inr True \<and>
             compute_ema (map close_price df) EMA_FAST ! (length df - 2)
               < compute_ema (map close_price df) EMA_SLOW ! (length df - 2) \<and>
             vol_ok (volume (last df)) (avg_volume df) \<and>
             fl_le (compute_rsi (map close_price df) RSI_PERIOD ! (length df - 2)) (Fin RSI_OVERSOLD)
          then [\<lparr>typ_sig = ''HAMMER'', direction = ''LONG'', price = close_price (last df),
                 tme = ts (last df),
                 meta_rsi = compute_rsi (map close_price df) RSI_PERIOD ! (length df - 2),
                 meta_avg_vol = avg_volume df, meta_last_vol = volume (last df)\<rparr>]
          else []) @
         (if is_shooting_star_candle (last df) \<and>
             trend_confirmation (take 5 (tail_slice 6 df)) ''up'' 3 = Inr True \<and>
             compute_ema (map close_price df) EMA_FAST ! (length df - 2)
               > compute_ema (map close_price df) EMA_SLOW ! (length df - 2) \<and>
             vol_ok (volume (last df)) (avg_volume df) \<and>
             fl_ge (compute_rsi (map close_price df) RSI_PERIOD ! (length df - 2)) (Fin RSI_OVERBOUGHT)
          then [\<lparr>typ_sig = ''SHOOTING_STAR'', direction = ''SHORT'', price = close_price (last df),
                 tme = ts (last df),
                 meta_rsi = compute_rsi (map close_price df) RSI_PERIOD ! (length df - 2),
                 meta_avg_vol = avg_volume df, meta_last_vol = volume (last df)\<rparr>]
          else []))"
proof -
  have ne: "df \<noteq> []" using len by auto
  have ne6: "tail_slice 6 df \<noteq> []" by (rule tail_slice_nonempty [OF ne]) simp
  have f1: "iloc (tail_slice 6 df) (- 1) = Inr (last df)"
    using iloc_last [OF ne6] last_tail_slice [OF ne, of 6] by simp
  have f2: "iloc (map ts (tail_slice 6 df)) (- 1) = Inr (ts (last df))"
    using iloc_last [of "map ts (tail_slice 6 df)"] ne6 last_tail_slice [OF ne, of 6]
    by (simp add: last_map)
  have f3: "iloc (compute_ema (map close_price df) p) (- 2)
              = Inr (compute_ema (map close_price df) p ! (length df - 2))" for p
    using iloc_second_last [of "compute_ema (map close_price df) p"] len
    by (simp add: length_compute_ema)
  have f4: "iloc (compute_rsi (map close_price df) p) (- 2)
              = Inr (compute_rsi (map close_price df) p ! (length df - 2))" for p
    using iloc_second_last [of "compute_rsi (map close_price df) p"] len
    by (simp add: length_compute_rsi)
  have w: "take 5 (tail_slice 6 df) \<noteq> []" using ne6 by simp
  obtain td where td: "trend_confirmation (take 5 (tail_slice 6 df)) ''down'' 3 = Inr td"
    using trend_confirmation_down [OF w] by blast
  obtain tu where tu: "trend_confirmation (take 5 (tail_slice 6 df)) ''up'' 3 = Inr tu"
    using trend_confirmation_up [OF w] by blast
  have nl: "\<not> length df < 6" using len by simp
  show ?thesis
    unfolding analyze_pair_def fetch_ohlcv_df_def
    by (simp add: nl Let_def f1 f2 f3 f4 td tu bind_err_Inr conj_ac)
qed

lemma vol_ok_iff:
  "df \<noteq> [] \<Longrightarrow> vol_ok v (avg_volume df) \<longleftrightarrow>
     (9 / 10) * (sum_list (map volume (tail_slice 20 df)) / real (length (tail_slice 20 df))) \<le> v"
  by (simp add: avg_volume_eq vol_ok_def fl_ge_def VOLUME_MULTIPLIER_def mult.commute)

lemma analyze_pair_short: "length df < 6 \<Longrightarrow> analyze_pair (Inr df) = Inr []"
  by (simp add: analyze_pair_def fetch_ohlcv_df_def)

lemma analyze_pair_fetch_error: "analyze_pair (Inl e) = Inr []"
  by (simp add: analyze_pair_def fetch_ohlcv_df_def)

lemma analyze_pair_total: "\<exists>sigs. analyze_pair response = Inr sigs \<and> length sigs \<le> 1"
proof (cases response)
  case (Inl e)
  then show ?thesis by (simp add: analyze_pair_fetch_error)
next
  case (Inr df)
  show ?thesis
  proof (cases "length df < 6")
    case True
    then show ?thesis by (simp add: Inr analyze_pair_short)
  next
    case False
    then have "6 \<le> length df" by simp
    from analyze_pair_eq [OF this] not_both_patterns [of "last df"] show ?thesis
      unfolding Inr by auto
  qed
qed

lemma trend_window_split:
  assumes "6 \<le> length df"
  shows "df = take (length df - 6) df @ take 5 (tail_slice 6 df) @ [last df]"
proof -
  have ne: "df \<noteq> []" using assms by auto
  have b: "butlast df = take (length df - 1) df" by (simp add: butlast_conv_take)
  have "take 5 (tail_slice 6 df) = drop (length df - 6) (butlast df)"
    using assms by (simp add: tail_slice_def b drop_take)
  moreover have "take (length df - 6) df = take (length df - 6) (butlast df)"
    using assms by (simp add: b min_def)
  ultimately have "take (length df - 6) df @ take 5 (tail_slice 6 df) @ [last df]
      = butlast df @ [last df]" by simp
  then show ?thesis using ne by simp
qed

section \<open>The relative strength index\<close>

lemma rolling_window_nth:
  assumes "i < length xs"
  shows "rolling_window p xs i = map ((!) xs) [Suc i - p..<Suc i]"
proof (rule nth_equalityI)
  show "length (rolling_window p xs i) = length (map ((!) xs) [Suc i - p..<Suc i])"
    using assms by (simp add: rolling_window_def; arith)
next
  fix k assume "k < length (rolling_window p xs i)"
  then have k: "k < Suc i - (Suc i - p)" using assms by (simp add: rolling_window_def)
  have "map ((!) xs) [Suc i - p..<Suc i] ! k = xs ! (Suc i - p + k)"
    using k by (simp add: nth_map_upt del: upt_Suc)
  moreover have "rolling_window p xs i ! k = xs ! (Suc i - p + k)"
    using k assms by (simp add: rolling_window_def)
  ultimately show "rolling_window p xs i ! k = map ((!) xs) [Suc i - p..<Suc i] ! k"
    by simp
qed

lemma rolling_mean_nth:
  "i < length xs \<Longrightarrow> rolling_mean p m xs ! i =
     (let obs = filter (\<lambda>x. x \<noteq> NaN) (rolling_window p xs i)
      in if length obs \<ge> m \<and> obs \<noteq> []
         then fl_div (fl_sum obs) (Fin (real (length obs))) else NaN)"
  by (simp add: rolling_mean_def)

lemma diff_nth:
  "0 < j \<Longrightarrow> j < length s \<Longrightarrow> diff s ! j = Fin (s ! j - s ! (j - 1))"
  by (cases s; cases j) (simp_all add: fl_sub_def)

text \<open>Before the warm-up is over, the window holds too few observations.\<close>

lemma rolling_mean_early:
  assumes f: "f NaN = NaN" and ip: "i < p" and il: "i < length s"
  shows "rolling_mean p p (map f (diff s)) ! i = NaN"
proof -
  obtain x xs where s: "s = x # xs" using il by (cases s) auto
  have "rolling_window p (map f (diff s)) i = take (Suc i) (map f (diff s))"
    using ip by (simp add: rolling_window_def)
  also have "\<dots> = NaN # take i (map f (tl (diff s)))"
    by (simp add: s f)
  finally have w: "rolling_window p (map f (diff s)) i = NaN # take i (map f (tl (diff s)))" .
  have "length (filter (\<lambda>x. x \<noteq> NaN) (take i (map f (tl (diff s))))) \<le> i"
    by (rule order_trans [OF length_filter_le]) simp
  then have "\<not> p \<le> length (filter (\<lambda>x. x \<noteq> NaN) (rolling_window p (map f (diff s)) i))"
    using ip by (simp add: w)
  then show ?thesis
    using il by (simp add: rolling_mean_nth length_diff Let_def)
qed

text \<open>After the warm-up, the window holds \<open>period\<close> finite steps.\<close>

lemma rolling_mean_warm:
  assumes f: "\<And>a. f (Fin a) = Fin (g a)"
    and p: "0 < p" and pi: "p \<le> i" and il: "i < length s"
  shows "rolling_mean p p (map f (diff s)) ! i =
           Fin (sum_list (map (\<lambda>j. g (s ! j - s ! (j - 1))) [Suc i - p..<Suc i]) / real p)"
proof -
  have "rolling_window p (map f (diff s)) i = map ((!) (map f (diff s))) [Suc i - p..<Suc i]"
    using il by (simp add: rolling_window_nth length_diff)
  also have "\<dots> = map (\<lambda>j. Fin (g (s ! j - s ! (j - 1)))) [Suc i - p..<Suc i]"
  proof (rule map_cong [OF refl])
    fix j assume "j \<in> set [Suc i - p..<Suc i]"
    then have "0 < j" "j < length s" using pi il by auto
    then show "map f (diff s) ! j = Fin (g (s ! j - s ! (j - 1)))"
      by (simp add: length_diff diff_nth f)
  qed
  also have "\<dots> = map Fin (map (\<lambda>j. g (s ! j - s ! (j - 1))) [Suc i - p..<Suc i])"
    by simp
  finally have w: "rolling_window p (map f (diff s)) i
      = map Fin (map (\<lambda>j. g (s ! j - s ! (j - 1))) [Suc i - p..<Suc i])" .
  have l: "length [Suc i - p..<Suc i] = p" using pi by (simp; arith)
  show ?thesis
    using il p l
    by (simp add: rolling_mean_nth length_diff Let_def w filter_Fin fl_sum_Fin del: map_map)
qed

lemma clip_lower_Fin: "clip_lower 0 (Fin a) = Fin (max a 0)"
  by (simp add: clip_lower_def max_def)

lemma neg_clip_upper_Fin: "fl_mul (Fin (- 1)) (clip_upper 0 (Fin a)) = Fin (max (- a) 0)"
  by (simp add: clip_upper_def max_def)

lemma clip_lower_NaN: "clip_lower 0 NaN = NaN"
  by (simp add: clip_lower_def)

lemma compute_rsi_nth:
  "i < length s \<Longrightarrow> compute_rsi s p ! i =
     fl_sub (Fin 100) (fl_div (Fin 100) (fl_add (Fin 1) (fl_div (ma_up s p ! i) (ma_down s p ! i))))"
  by (simp add: compute_rsi_def ma_up_def ma_down_def Let_def length_rolling_mean length_diff)

lemma compute_rsi_early:
  assumes "i < p" and "i < length s"
  shows "compute_rsi s p ! i = NaN"
  using assms rolling_mean_early [of "clip_lower 0" i p s]
  by (simp add: compute_rsi_nth ma_up_def clip_lower_NaN fl_sub_def)

lemma ma_up_warm:
  assumes "0 < p" and "p \<le> i" and "i < length s"
  shows "ma_up s p ! i = Fin (sum_list (map (\<lambda>j. max (s ! j - s ! (j - 1)) 0) [Suc i - p..<Suc i]) / real p)"
  unfolding ma_up_def by (rule rolling_mean_warm [where f = "clip_lower 0" and g = "\<lambda>a. max a 0", OF clip_lower_Fin assms])

lemma ma_down_warm:
  assumes "0 < p" and "p \<le> i" and "i < length s"
  shows "ma_down s p ! i = Fin (sum_list (map (\<lambda>j. max (- (s ! j - s ! (j - 1))) 0) [Suc i - p..<Suc i]) / real p)"
  unfolding ma_down_def by (rule rolling_mean_warm [where f = "\<lambda>x. fl_mul (Fin (- 1)) (clip_upper 0 x)" and g = "\<lambda>a. max (- a) 0",
        OF neg_clip_upper_Fin assms])

lemma sum_max0_nonneg: "0 \<le> sum_list (map (\<lambda>j. max (h j) (0::real)) js)"
  by (induction js) simp_all

lemma rsi_value:
  assumes a: "0 \<le> a" and b: "0 \<le> b"
  shows "fl_sub (Fin 100) (fl_div (Fin 100) (fl_add (Fin 1) (fl_div (Fin a) (Fin b)))) =
           (if b = 0 then (if a = 0 then NaN else Fin 100) else Fin (100 - 100 / (1 + a / b)))"
proof -
  have "1 + a / b \<noteq> 0" if "b \<noteq> 0"
  proof -
    have "0 \<le> a / b" using a b by simp
    then show ?thesis by linarith
  qed
  then show ?thesis using a by (auto simp: fl_sub_def)
qed

lemma rsi_range:
  assumes a: "0 \<le> a" and b: "0 < (b::real)"
  shows "0 \<le> 100 - 100 / (1 + a / b)" and "100 - 100 / (1 + a / b) \<le> 100"
proof -
  have q: "0 \<le> a / b" using a b by simp
  then have "100 / (1 + a / b) \<le> 100 / 1"
    by (intro divide_left_mono) simp_all
  then show "0 \<le> 100 - 100 / (1 + a / b)" by simp
  have "0 \<le> 100 / (1 + a / b)" using q by simp
  then show "100 - 100 / (1 + a / b) \<le> 100" by simp
qed

section \<open>The fixture evaluated\<close>

lemma falling_market_len: "length falling_market = 16"
  by (simp add: falling_market_def)

lemma falling_market_last:
  "last falling_market = \<lparr>ts = 13500000, open_price = 100, high = 201 / 2, low = 90, close_price = 99,
         volume = 10\<rparr>"
  by (simp add: falling_market_def)

lemma fm_hammer: "is_hammer_candle (last falling_market)"
  by (simp add: falling_market_last is_hammer_candle_def)

lemma fm_not_star: "\<not> is_shooting_star_candle (last falling_market)"
  by (simp add: falling_market_last is_shooting_star_candle_def)

lemma fm_trend: "trend_confirmation (take 5 (tail_slice 6 falling_market)) ''down'' 3 = Inr True"
  by code_simp

lemma fm_ema: "compute_ema (map close_price falling_market) EMA_FAST ! (length falling_market - 2)
               < compute_ema (map close_price falling_market) EMA_SLOW ! (length falling_market - 2)"
  by code_simp

lemma fm_rsi: "compute_rsi (map close_price falling_market) RSI_PERIOD ! (length falling_market - 2) = Fin 0"
  by code_simp

lemma fm_avg: "avg_volume falling_market = Fin 10"
  by code_simp

lemma fm_fields:
  "close_price (last falling_market) = 99" "ts (last falling_market) = 13500000"
  "volume (last falling_market) = 10"
  by (simp_all add: falling_market_last)

lemma fm_vol: "vol_ok 10 (Fin 10)"
  by (simp add: vol_ok_def fl_ge_def VOLUME_MULTIPLIER_def)

lemma fm_eval: "analyze_pair (Inr falling_market) =
   Inr [\<lparr>typ_sig = ''HAMMER'', direction = ''LONG'', price = 99, tme = 13500000,
         meta_rsi = Fin 0, meta_avg_vol = Fin 10, meta_last_vol = 10\<rparr>]"
proof -
  have "6 \<le> length falling_market" by (simp add: falling_market_len)
  from analyze_pair_eq [OF this] show ?thesis
    by (simp add: fm_hammer fm_not_star fm_trend fm_ema fm_rsi fm_vol RSI_OVERSOLD_def fm_avg
        fm_fields)
qed

text \<open>The market that turns late, evaluated the same way.\<close>

lemma lt_len: "length late_turn_market = 16" "length late_turn_window = 5"
  "length late_turn_before = 10"
  by (simp_all add: late_turn_market_def late_turn_before_def late_turn_window_def)

lemma lt_last: "last late_turn_market = late_turn_candle"
  by (simp add: late_turn_market_def)

lemma lt_hammer: "is_hammer_candle late_turn_candle"
  by (simp add: late_turn_candle_def is_hammer_candle_def)

lemma lt_not_star: "\<not> is_shooting_star_candle late_turn_candle"
  by (simp add: late_turn_candle_def is_shooting_star_candle_def)

lemma lt_trend: "trend_confirmation late_turn_window ''down'' 3 = Inr True"
  by code_simp

lemma lt_trend_shifted:
  "trend_confirmation (tl late_turn_window @ [late_turn_candle]) ''down'' 3 = Inr False"
  by code_simp

lemma lt_ema: "compute_ema (map close_price late_turn_market) EMA_FAST ! (length late_turn_market - 2)
               < compute_ema (map close_price late_turn_market) EMA_SLOW ! (length late_turn_market - 2)"
  by code_simp

lemma lt_rsi: "compute_rsi (map close_price late_turn_market) RSI_PERIOD ! (length late_turn_market - 2) = Fin 20"
  by code_simp

lemma lt_avg: "avg_volume late_turn_market = Fin (3179 / 320)"
  by code_simp

lemma lt_avg_before: "avg_volume (late_turn_before @ late_turn_window) = Fin 10"
  by code_simp

lemma lt_fields:
  "close_price late_turn_candle = 100" "ts late_turn_candle = 13500000"
  "volume late_turn_candle = 179 / 20"
  by (simp_all add: late_turn_candle_def)

lemma lt_vol: "vol_ok (179 / 20) (Fin (3179 / 320))" "\<not> vol_ok (179 / 20) (Fin 10)"
  by (simp_all add: vol_ok_def fl_ge_def VOLUME_MULTIPLIER_def)

lemma take5_tail6: "length w = 5 \<Longrightarrow> take 5 (tail_slice 6 (pre @ w @ [pc])) = w"
  by (simp add: tail_slice_def)

lemma lt_eval: "analyze_pair (Inr late_turn_market) =
   Inr [\<lparr>typ_sig = ''HAMMER'', direction = ''LONG'', price = 100, tme = 13500000,
         meta_rsi = Fin 20, meta_avg_vol = Fin (3179 / 320), meta_last_vol = 179 / 20\<rparr>]"
proof -
  have l: "6 \<le> length late_turn_market" by (simp add: lt_len)
  have w: "take 5 (tail_slice 6 late_turn_market) = late_turn_window"
    unfolding late_turn_market_def by (rule take5_tail6) (simp add: lt_len)
  from analyze_pair_eq [OF l] show ?thesis
    unfolding w lt_last
    by (simp add: lt_hammer lt_not_star lt_trend lt_ema lt_rsi lt_vol RSI_OVERSOLD_def lt_avg
        lt_fields)
qed

section \<open>The composite rule\<close>

text \<open>
  C1: for a fetched series of at least six candles, a HAMMER signal (direction LONG, priced
  at the pattern candle's close) is emitted if and only if the pattern candle has the hammer
  shape, the five candles before it confirm a downtrend, its volume is at least 0.9 times the
  trailing average, the fast EMA at the candle before it is strictly below the slow EMA, and
  the RSI there is at most 40; a SHOOTING_STAR signal (SHORT) mirrors this with the uptrend,
  the fast EMA strictly above the slow one and the RSI at least 60.
\<close>

theorem composite_rule:
  assumes "6 \<le> length df"
  shows "\<exists>sigs. analyze_pair (Inr df) = Inr sigs \<and>
     ((\<exists>s \<in> set sigs. typ_sig s = ''HAMMER'') \<longleftrightarrow>
        is_hammer_candle (last df) \<and>
        trend_confirmation (take 5 (tail_slice 6 df)) ''down'' 3 = Inr True \<and>
        (9 / 10) * (sum_list (map volume (tail_slice 20 df)) / real (length (tail_slice 20 df)))
          \<le> volume (last df) \<and>
        compute_ema (map close_price df) 20 ! (length df - 2)
          < compute_ema (map close_price df) 50 ! (length df - 2) \<and>
        fl_le (compute_rsi (map close_price df) 14 ! (length df - 2)) (Fin 40)) \<and>
     ((\<exists>s \<in> set sigs. typ_sig s = ''SHOOTING_STAR'') \<longleftrightarrow>
        is_shooting_star_candle (last df) \<and>
        trend_confirmation (take 5 (tail_slice 6 df)) ''up'' 3 = Inr True \<and>
        (9 / 10) * (sum_list (map volume (tail_slice 20 df)) / real (length (tail_slice 20 df)))
          \<le> volume (last df) \<and>
        compute_ema (map close_price df) 20 ! (length df - 2)
          > compute_ema (map close_price df) 50 ! (length df - 2) \<and>
        fl_ge (compute_rsi (map close_price df) 14 ! (length df - 2)) (Fin 60)) \<and>
     (\<forall>s \<in> set sigs.
        (typ_sig s = ''HAMMER'' \<and> direction s = ''LONG'' \<or>
         typ_sig s = ''SHOOTING_STAR'' \<and> direction s = ''SHORT'') \<and>
        price s = close_price (last df))"
proof -
  have ne: "df \<noteq> []" using assms by auto
  note v = vol_ok_iff [OF ne, of "volume (last df)"]
  note c = EMA_FAST_def EMA_SLOW_def RSI_PERIOD_def RSI_OVERSOLD_def RSI_OVERBOUGHT_def
  show ?thesis
    unfolding analyze_pair_eq [OF assms] v c by auto
qed

theorem composite_rule_witness:
  "6 \<le> length falling_market \<and>
   analyze_pair (Inr falling_market) =
     Inr [\<lparr>typ_sig = ''HAMMER'', direction = ''LONG'', price = 99, tme = 13500000,
           meta_rsi = Fin 0, meta_avg_vol = Fin 10, meta_last_vol = 10\<rparr>] \<and>
   is_hammer_candle (last falling_market) \<and>
   trend_confirmation (take 5 (tail_slice 6 falling_market)) ''down'' 3 = Inr True \<and>
   (9 / 10) * (sum_list (map volume (tail_slice 20 falling_market))
       / real (length (tail_slice 20 falling_market))) \<le> volume (last falling_market) \<and>
   compute_ema (map close_price falling_market) 20 ! (length falling_market - 2)
     < compute_ema (map close_price falling_market) 50 ! (length falling_market - 2) \<and>
   fl_le (compute_rsi (map close_price falling_market) 14 ! (length falling_market - 2)) (Fin 40)"
proof -
  have l: "6 \<le> length falling_market" by (simp add: falling_market_len)
  show ?thesis
    using composite_rule [OF l] l by (simp add: fm_eval)
qed

section \<open>The pattern classifiers\<close>

text \<open>
  C5: the hammer classifier returns true if and only if the body \<open>|close - open|\<close> is
  nonzero, the lower shadow \<open>min(open, close) - low\<close> exceeds 1.8 times the body and the
  upper shadow \<open>high - max(open, close)\<close> is below 0.6 times the body; the shooting-star
  classifier is the mirror image; and a candle whose body is zero is neither.
\<close>

theorem classifier_shapes:
  "(is_hammer_candle c \<longleftrightarrow>
      \<bar>close_price c - open_price c\<bar> \<noteq> 0 \<and>
      min (open_price c) (close_price c) - low c > (18 / 10) * \<bar>close_price c - open_price c\<bar> \<and>
      high c - max (open_price c) (close_price c) < (6 / 10) * \<bar>close_price c - open_price c\<bar>) \<and>
   (is_shooting_star_candle c \<longleftrightarrow>
      \<bar>close_price c - open_price c\<bar> \<noteq> 0 \<and>
      high c - max (open_price c) (close_price c) > (18 / 10) * \<bar>close_price c - open_price c\<bar> \<and>
      min (open_price c) (close_price c) - low c < (6 / 10) * \<bar>close_price c - open_price c\<bar>) \<and>
   (\<bar>close_price c - open_price c\<bar> = 0 \<longrightarrow>
      \<not> is_hammer_candle c \<and> \<not> is_shooting_star_candle c)"
  by (simp add: is_hammer_candle_def is_shooting_star_candle_def Let_def mult.commute)

theorem classifier_shapes_witness:
  "\<bar>close_price doji - open_price doji\<bar> = 0 \<and>
   \<not> is_hammer_candle doji \<and> \<not> is_shooting_star_candle doji \<and>
   is_hammer_candle (last falling_market)"
  using classifier_shapes [of doji] classifier_shapes [of "last falling_market"]
  by (simp add: doji_def falling_market_last)

text \<open>
  C6: no candle is both a hammer and a shooting star, and so the analysis of one pair
  returns at most one signal.
\<close>

theorem patterns_exclusive:
  "\<not> (is_hammer_candle c \<and> is_shooting_star_candle c) \<and>
   (\<exists>sigs. analyze_pair response = Inr sigs \<and> length sigs \<le> 1)"
  using not_both_patterns [of c] analyze_pair_total [of response] by simp

theorem patterns_exclusive_witness:
  "\<not> (is_hammer_candle (last falling_market) \<and> is_shooting_star_candle (last falling_market)) \<and>
   (\<exists>sigs. analyze_pair (Inr falling_market) = Inr sigs \<and> length sigs \<le> 1)"
  using patterns_exclusive [of "last falling_market" "Inr falling_market"] by simp

section \<open>Trend confirmation\<close>

text \<open>
  C4: on a window of candles, direction down returns true if and only if at least
  \<open>required_count\<close> candles of the window are bearish and the last close is strictly
  below the first close; direction up is the same with bullish candles and a last close
  strictly above the first. The window that the analysis passes consists of exactly the
  five candles immediately before the pattern candle, which is not among them: on a series
  that ends with five candles \<open>w\<close> and the pattern candle \<open>pc\<close>, the analysis emits
  a signal exactly when, besides the other conditions, this rule holds of \<open>w\<close> with a
  required count of 3.
\<close>

theorem trend_rule:
  "(candles \<noteq> [] \<longrightarrow>
      trend_confirmation candles ''down'' required_count =
        Inr (required_count \<le> int (length (filter (\<lambda>c. close_price c < open_price c) candles)) \<and>
             close_price (last candles) < close_price (hd candles))) \<and>
   (candles \<noteq> [] \<longrightarrow>
      trend_confirmation candles ''up'' required_count =
        Inr (required_count \<le> int (length (filter (\<lambda>c. close_price c > open_price c) candles)) \<and>
             close_price (last candles) > close_price (hd candles))) \<and>
   (6 \<le> length df \<longrightarrow>
      df = take (length df - 6) df @ take 5 (tail_slice 6 df) @ [last df] \<and>
      length (take 5 (tail_slice 6 df)) = 5) \<and>
   (df = pre @ w @ [pc] \<and> length w = 5 \<longrightarrow>
      (\<exists>sigs. analyze_pair (Inr df) = Inr sigs \<and>
         ((\<exists>s \<in> set sigs. typ_sig s = ''HAMMER'') \<longleftrightarrow>
            is_hammer_candle pc \<and>
            (3 \<le> int (length (filter (\<lambda>c. close_price c < open_price c) w)) \<and>
             close_price (last w) < close_price (hd w)) \<and>
            vol_ok (volume pc) (avg_volume df) \<and>
            compute_ema (map close_price df) 20 ! (length df - 2)
              < compute_ema (map close_price df) 50 ! (length df - 2) \<and>
            fl_le (compute_rsi (map close_price df) 14 ! (length df - 2)) (Fin 40)) \<and>
         ((\<exists>s \<in> set sigs. typ_sig s = ''SHOOTING_STAR'') \<longleftrightarrow>
            is_shooting_star_candle pc \<and>
            (3 \<le> int (length (filter (\<lambda>c. close_price c > open_price c) w)) \<and>
             close_price (last w) > close_price (hd w)) \<and>
            vol_ok (volume pc) (avg_volume df) \<and>
            compute_ema (map close_price df) 20 ! (length df - 2)
              > compute_ema (map close_price df) 50 ! (length df - 2) \<and>
            fl_ge (compute_rsi (map close_price df) 14 ! (length df - 2)) (Fin 60))))"
proof -
  have rule: "(candles \<noteq> [] \<longrightarrow>
      trend_confirmation candles ''down'' required_count =
        Inr (required_count \<le> int (length (filter (\<lambda>c. close_price c < open_price c) candles)) \<and>
             close_price (last candles) < close_price (hd candles))) \<and>
   (candles \<noteq> [] \<longrightarrow>
      trend_confirmation candles ''up'' required_count =
        Inr (required_count \<le> int (length (filter (\<lambda>c. close_price c > open_price c) candles)) \<and>
             close_price (last candles) > close_price (hd candles))) \<and>
   (6 \<le> length df \<longrightarrow>
      df = take (length df - 6) df @ take 5 (tail_slice 6 df) @ [last df] \<and>
      length (take 5 (tail_slice 6 df)) = 5)"
    using trend_confirmation_down [of candles required_count]
      trend_confirmation_up [of candles required_count] trend_window_split [of df]
    by (simp add: length_tail_slice)
  have ev: "\<exists>sigs. analyze_pair (Inr df) = Inr sigs \<and>
         ((\<exists>s \<in> set sigs. typ_sig s = ''HAMMER'') \<longleftrightarrow>
            is_hammer_candle pc \<and>
            (3 \<le> int (length (filter (\<lambda>c. close_price c < open_price c) w)) \<and>
             close_price (last w) < close_price (hd w)) \<and>
            vol_ok (volume pc) (avg_volume df) \<and>
            compute_ema (map close_price df) 20 ! (length df - 2)
              < compute_ema (map close_price df) 50 ! (length df - 2) \<and>
            fl_le (compute_rsi (map close_price df) 14 ! (length df - 2)) (Fin 40)) \<and>
         ((\<exists>s \<in> set sigs. typ_sig s = ''SHOOTING_STAR'') \<longleftrightarrow>
            is_shooting_star_candle pc \<and>
            (3 \<le> int (length (filter (\<lambda>c. close_price c > open_price c) w)) \<and>
             close_price (last w) > close_price (hd w)) \<and>
            vol_ok (volume pc) (avg_volume df) \<and>
            compute_ema (map close_price df) 20 ! (length df - 2)
              > compute_ema (map close_price df) 50 ! (length df - 2) \<and>
            fl_ge (compute_rsi (map close_price df) 14 ! (length df - 2)) (Fin 60))"
    if df: "df = pre @ w @ [pc]" and w: "length w = 5"
  proof -
    have l: "6 \<le> length df" using df w by simp
    have tw: "take 5 (tail_slice 6 df) = w" unfolding df by (rule take5_tail6 [OF w])
    have la: "last df = pc" using df by simp
    have ne: "w \<noteq> []" using w by auto
    note td = trend_confirmation_down [OF ne, of 3]
    note tu = trend_confirmation_up [OF ne, of 3]
    note c = EMA_FAST_def EMA_SLOW_def RSI_PERIOD_def RSI_OVERSOLD_def RSI_OVERBOUGHT_def
    show ?thesis
      unfolding analyze_pair_eq [OF l] tw la td tu c by auto
  qed
  from rule ev show ?thesis by blast
qed

theorem trend_rule_witness:
  "take 5 (tail_slice 6 falling_market) \<noteq> [] \<and> 6 \<le> length falling_market \<and>
   trend_confirmation (take 5 (tail_slice 6 falling_market)) ''down'' 3 = Inr True \<and>
   trend_confirmation (take 5 (tail_slice 6 falling_market)) ''up'' 3 = Inr False \<and>
   length (take 5 (tail_slice 6 falling_market)) = 5 \<and>
   late_turn_market = late_turn_before @ late_turn_window @ [late_turn_candle] \<and>
   length late_turn_window = 5 \<and>
   analyze_pair (Inr late_turn_market) =
     Inr [\<lparr>typ_sig = ''HAMMER'', direction = ''LONG'', price = 100, tme = 13500000,
           meta_rsi = Fin 20, meta_avg_vol = Fin (3179 / 320), meta_last_vol = 179 / 20\<rparr>] \<and>
   3 \<le> int (length (filter (\<lambda>c. close_price c < open_price c) late_turn_window)) \<and>
   close_price (last late_turn_window) < close_price (hd late_turn_window) \<and>
   trend_confirmation (tl late_turn_window @ [late_turn_candle]) ''down'' 3 = Inr False"
proof -
  have w: "take 5 (tail_slice 6 falling_market) =
      map (\<lambda>i. \<lparr>ts = 900000 * int i, open_price = 120 - real i, high = 120 - real i,
                 low = 119 - real i, close_price = 119 - real i, volume = 10\<rparr>) [10..<15]"
    by (simp add: falling_market_def tail_slice_def)
  have e: "[10..<15] = [10, 11, 12, 13, 14]" by (simp add: upt_rec)
  have old: "take 5 (tail_slice 6 falling_market) \<noteq> [] \<and> 6 \<le> length falling_market \<and>
   trend_confirmation (take 5 (tail_slice 6 falling_market)) ''down'' 3 = Inr True \<and>
   trend_confirmation (take 5 (tail_slice 6 falling_market)) ''up'' 3 = Inr False \<and>
   length (take 5 (tail_slice 6 falling_market)) = 5"
    using trend_rule [of "take 5 (tail_slice 6 falling_market)" 3 falling_market
        "[]" "[]" doji]
    unfolding w e by (simp add: falling_market_len)
  have new: "3 \<le> int (length (filter (\<lambda>c. close_price c < open_price c) late_turn_window)) \<and>
      close_price (last late_turn_window) < close_price (hd late_turn_window)"
    using trend_rule [of late_turn_window 3 late_turn_market late_turn_before
        late_turn_window late_turn_candle]
    by (simp add: late_turn_market_def lt_len lt_eval [unfolded late_turn_market_def])
  show ?thesis
    using old new by (simp add: late_turn_market_def lt_len lt_trend_shifted
        lt_eval [unfolded late_turn_market_def])
qed

section \<open>The scheduler\<close>

text \<open>
  C8: for every clock reading \<open>t\<close> in whole seconds, the computed duration \<open>s\<close>
  satisfies \<open>0 \<le> s < 900\<close> and \<open>t + s\<close> is a multiple of 900; at the end of a
  cycle the loop sleeps \<open>s + 1\<close> seconds, with a full 900 in place of \<open>s\<close> when
  \<open>s\<close> is zero.
\<close>

theorem boundary_alignment:
  "0 \<le> seconds_to_next_15min t \<and> seconds_to_next_15min t < 900 \<and>
   (t + seconds_to_next_15min t) mod 900 = 0 \<and>
   cycle_sleep t = (if seconds_to_next_15min t = 0 then 900 else seconds_to_next_15min t) + 1"
proof -
  define r where "r = t mod 900"
  have r: "0 \<le> r" "r < 900" by (simp_all add: r_def)
  define q where "q = t div 900"
  have "t = 900 * q + r" by (simp add: r_def q_def)
  then have e: "t + (900 - r) = 900 * (q + 1)" by (simp add: algebra_simps)
  have m: "(t + (900 - r)) mod 900 = 0" unfolding e by (rule mod_mult_self1_is_0)
  have z: "r = 0 \<Longrightarrow> t mod 900 = 0" by (simp add: r_def)
  have s: "seconds_to_next_15min t = (if r \<noteq> 0 then 900 - r else 0)"
    by (simp add: seconds_to_next_15min_def r_def Let_def)
  have c: "cycle_sleep t = (if seconds_to_next_15min t = 0 then 900 else seconds_to_next_15min t) + 1"
    by (simp add: cycle_sleep_def Let_def)
  show ?thesis
  proof (cases "r = 0")
    case True
    then show ?thesis using c z by (simp add: s)
  next
    case False
    then show ?thesis using c r m by (simp add: s)
  qed
qed

theorem boundary_alignment_witness:
  "seconds_to_next_15min 1801 = 899 \<and> cycle_sleep 1801 = 900 \<and>
   seconds_to_next_15min 1800 = 0 \<and> cycle_sleep 1800 = 901"
  using boundary_alignment [of 1801] boundary_alignment [of 1800]
  by (simp add: seconds_to_next_15min_def)

section \<open>The volume filter\<close>

lemma tail_slice_snoc: "tail_slice (Suc k) (xs @ [x]) = tail_slice k xs @ [x]"
  by (simp add: tail_slice_def)

lemma tail_slice_all: "length xs \<le> k \<Longrightarrow> tail_slice k xs = xs"
  by (simp add: tail_slice_def)

lemma tail5_before_last:
  assumes "5 \<le> length pre"
  shows "take 5 (tail_slice 6 (pre @ [c])) = tail_slice 5 pre"
proof -
  have "tail_slice 6 (pre @ [c]) = tail_slice 5 pre @ [c]"
    using tail_slice_snoc [of 5 pre c] by simp
  moreover have "length (tail_slice 5 pre) = 5"
    using assms by (simp add: length_tail_slice)
  ultimately show ?thesis by simp
qed

text \<open>
  C7: the volume filter passes if and only if the pattern candle's volume is at least 0.9
  times the average volume of the reference window, which is the last 20 candles of the
  series when it has at least 20 and the whole series otherwise; when the filter fails,
  the analysis emits nothing.
\<close>

theorem volume_filter:
  assumes "df \<noteq> []"
  shows "(vol_ok (volume (last df)) (avg_volume df) \<longleftrightarrow>
           (9 / 10) * (if 20 \<le> length df
                       then sum_list (map volume (drop (length df - 20) df)) / 20
                       else sum_list (map volume df) / real (length df))
             \<le> volume (last df)) \<and>
         (6 \<le> length df \<and> \<not> vol_ok (volume (last df)) (avg_volume df)
            \<longrightarrow> analyze_pair (Inr df) = Inr [])"
proof -
  have a: "20 \<le> length df \<Longrightarrow> tail_slice 20 df = drop (length df - 20) df"
    by (simp add: tail_slice_def)
  have b: "\<not> 20 \<le> length df \<Longrightarrow> tail_slice 20 df = df"
    by (simp add: tail_slice_all)
  have l: "20 \<le> length df \<Longrightarrow> length (drop (length df - 20) df) = 20"
    by simp
  have "vol_ok (volume (last df)) (avg_volume df) \<longleftrightarrow>
           (9 / 10) * (if 20 \<le> length df
                       then sum_list (map volume (drop (length df - 20) df)) / 20
                       else sum_list (map volume df) / real (length df))
             \<le> volume (last df)"
  proof (cases "20 \<le> length df")
    case True
    then show ?thesis using vol_ok_iff [OF assms, of "volume (last df)"] a l by simp
  next
    case False
    then show ?thesis using vol_ok_iff [OF assms, of "volume (last df)"] b by simp
  qed
  moreover have "analyze_pair (Inr df) = Inr []"
    if "6 \<le> length df" and "\<not> vol_ok (volume (last df)) (avg_volume df)"
    using analyze_pair_eq [OF that(1)] that(2) by simp
  ultimately show ?thesis by blast
qed

theorem volume_filter_witness:
  "falling_market \<noteq> [] \<and> \<not> 20 \<le> length falling_market \<and>
   vol_ok (volume (last falling_market)) (avg_volume falling_market) \<and>
   (9 / 10) * (sum_list (map volume falling_market) / real (length falling_market))
      \<le> volume (last falling_market)"
proof -
  have ne: "falling_market \<noteq> []" using falling_market_len by auto
  show ?thesis
    using volume_filter [OF ne] ne fm_vol by (simp add: falling_market_len fm_avg fm_fields)
qed

text \<open>
  C10: the average volume is taken over the last 20 candles of the series, or over all of
  them when there are fewer, and this window ends with the pattern candle itself: the
  pattern candle's own volume is part of the average it is compared with. The analysis
  of a series \<open>pre @ [c]\<close> reports this average in every signal, and emits a signal
  exactly when \<open>c\<close>'s volume is at least 0.9 times this average and the other
  conditions of one pattern hold.
\<close>

theorem avg_volume_includes_pattern_candle:
  "avg_volume (pre @ [c]) =
     Fin ((sum_list (map volume (tail_slice 19 pre)) + volume c) / real (min 20 (length pre + 1))) \<and>
   iloc (tail_slice 6 (pre @ [c])) (- 1) = Inr c \<and>
   (df = pre @ [c] \<and> 5 \<le> length pre \<longrightarrow>
      (\<exists>sigs. analyze_pair (Inr df) = Inr sigs \<and>
         (\<forall>s \<in> set sigs.
            meta_last_vol s = volume c \<and>
            meta_avg_vol s =
              Fin ((sum_list (map volume (tail_slice 19 pre)) + volume c)
                     / real (min 20 (length pre + 1)))) \<and>
         (sigs \<noteq> [] \<longleftrightarrow>
            (9 / 10) * ((sum_list (map volume (tail_slice 19 pre)) + volume c)
                          / real (min 20 (length pre + 1))) \<le> volume c \<and>
            (is_hammer_candle c \<and>
             trend_confirmation (tail_slice 5 pre) ''down'' 3 = Inr True \<and>
             compute_ema (map close_price df) 20 ! (length df - 2)
               < compute_ema (map close_price df) 50 ! (length df - 2) \<and>
             fl_le (compute_rsi (map close_price df) 14 ! (length df - 2)) (Fin 40) \<or>
             is_shooting_star_candle c \<and>
             trend_confirmation (tail_slice 5 pre) ''up'' 3 = Inr True \<and>
             compute_ema (map close_price df) 20 ! (length df - 2)
               > compute_ema (map close_price df) 50 ! (length df - 2) \<and>
             fl_ge (compute_rsi (map close_price df) 14 ! (length df - 2)) (Fin 60)))))"
proof -
  define A where
    "A = (sum_list (map volume (tail_slice 19 pre)) + volume c) / real (min 20 (length pre + 1))"
  have t: "tail_slice 20 (pre @ [c]) = tail_slice 19 pre @ [c]"
    using tail_slice_snoc [of 19 pre c] by simp
  have l: "length (tail_slice 19 pre @ [c]) = min 20 (length pre + 1)"
    by (simp add: length_tail_slice)
  have a: "avg_volume (pre @ [c]) = Fin A"
    using avg_volume_eq [of "pre @ [c]"] l unfolding t A_def by simp
  have ne: "tail_slice 6 (pre @ [c]) \<noteq> []"
    by (rule tail_slice_nonempty) simp_all
  have "last (tail_slice 6 (pre @ [c])) = c"
    using last_tail_slice [of "pre @ [c]" 6] by simp
  then have i: "iloc (tail_slice 6 (pre @ [c])) (- 1) = Inr c"
    using iloc_last [OF ne] by simp
  have ev: "\<exists>sigs. analyze_pair (Inr df) = Inr sigs \<and>
         (\<forall>s \<in> set sigs. meta_last_vol s = volume c \<and> meta_avg_vol s = Fin A) \<and>
         (sigs \<noteq> [] \<longleftrightarrow>
            (9 / 10) * A \<le> volume c \<and>
            (is_hammer_candle c \<and>
             trend_confirmation (tail_slice 5 pre) ''down'' 3 = Inr True \<and>
             compute_ema (map close_price df) 20 ! (length df - 2)
               < compute_ema (map close_price df) 50 ! (length df - 2) \<and>
             fl_le (compute_rsi (map close_price df) 14 ! (length df - 2)) (Fin 40) \<or>
             is_shooting_star_candle c \<and>
             trend_confirmation (tail_slice 5 pre) ''up'' 3 = Inr True \<and>
             compute_ema (map close_price df) 20 ! (length df - 2)
               > compute_ema (map close_price df) 50 ! (length df - 2) \<and>
             fl_ge (compute_rsi (map close_price df) 14 ! (length df - 2)) (Fin 60)))"
    if df: "df = pre @ [c]" and p: "5 \<le> length pre"
  proof -
    have l6: "6 \<le> length df" using df p by simp
    have la: "last df = c" using df by simp
    have tw: "take 5 (tail_slice 6 df) = tail_slice 5 pre"
      unfolding df by (rule tail5_before_last [OF p])
    have av: "avg_volume df = Fin A" using a df by simp
    have v: "vol_ok (volume c) (Fin A) \<longleftrightarrow> (9 / 10) * A \<le> volume c"
      by (simp add: vol_ok_def fl_ge_def VOLUME_MULTIPLIER_def mult.commute)
    note k = EMA_FAST_def EMA_SLOW_def RSI_PERIOD_def RSI_OVERSOLD_def RSI_OVERBOUGHT_def
    show ?thesis
      unfolding analyze_pair_eq [OF l6] la tw av v k by auto
  qed
  from a i ev show ?thesis unfolding A_def by blast
qed

theorem avg_volume_includes_pattern_candle_witness:
  "late_turn_market = (late_turn_before @ late_turn_window) @ [late_turn_candle] \<and>
   5 \<le> length (late_turn_before @ late_turn_window) \<and>
   (sum_list (map volume (tail_slice 19 (late_turn_before @ late_turn_window)))
      + volume late_turn_candle)
     / real (min 20 (length (late_turn_before @ late_turn_window) + 1)) = 3179 / 320 \<and>
   analyze_pair (Inr late_turn_market) =
     Inr [\<lparr>typ_sig = ''HAMMER'', direction = ''LONG'', price = 100, tme = 13500000,
           meta_rsi = Fin 20, meta_avg_vol = Fin (3179 / 320), meta_last_vol = 179 / 20\<rparr>] \<and>
   avg_volume late_turn_market = Fin (3179 / 320) \<and>
   vol_ok (volume late_turn_candle) (avg_volume late_turn_market) \<and>
   avg_volume (late_turn_before @ late_turn_window) = Fin 10 \<and>
   \<not> vol_ok (volume late_turn_candle) (avg_volume (late_turn_before @ late_turn_window))"
proof -
  have m: "late_turn_market = (late_turn_before @ late_turn_window) @ [late_turn_candle]"
    by (simp add: late_turn_market_def)
  have p: "5 \<le> length (late_turn_before @ late_turn_window)"
    by (simp add: lt_len)
  from avg_volume_includes_pattern_candle
         [of "late_turn_before @ late_turn_window" late_turn_candle late_turn_market]
  have "avg_volume ((late_turn_before @ late_turn_window) @ [late_turn_candle]) =
     Fin ((sum_list (map volume (tail_slice 19 (late_turn_before @ late_turn_window)))
             + volume late_turn_candle)
            / real (min 20 (length (late_turn_before @ late_turn_window) + 1)))"
    by blast
  then have s: "(sum_list (map volume (tail_slice 19 (late_turn_before @ late_turn_window)))
      + volume late_turn_candle)
     / real (min 20 (length (late_turn_before @ late_turn_window) + 1)) = 3179 / 320"
    unfolding m [symmetric] lt_avg by simp
  show ?thesis
    using m p s lt_eval lt_avg lt_avg_before lt_vol by (simp add: lt_fields)
qed

section \<open>Failures and short histories\<close>

lemma analyze_pair_cold:
  assumes "length df < 16"
  shows "analyze_pair (Inr df) = Inr []"
proof (cases "length df < 6")
  case True
  then show ?thesis by (rule analyze_pair_short)
next
  case False
  then have l: "6 \<le> length df" by simp
  have i: "length df - 2 < RSI_PERIOD" "length df - 2 < length (map close_price df)"
    using assms l by (simp_all add: RSI_PERIOD_def)
  have "compute_rsi (map close_price df) RSI_PERIOD ! (length df - 2) = NaN"
    by (rule compute_rsi_early [OF i])
  then show ?thesis
    using analyze_pair_eq [OF l] by (simp add: fl_ge_def)
qed

text \<open>
  C9: when the fetch raises, or the series is too short (fewer than the six candles of the
  trend window and pattern candle, or fewer than the sixteen that the RSI needs to be
  defined at the candle before the pattern candle), the analysis returns the empty list
  and does not raise; the analysis never raises at all, and a cycle visits every pair.
\<close>

theorem skip_on_failure:
  "analyze_pair (Inl e) = Inr [] \<and>
   (length df < 16 \<longrightarrow> analyze_pair (Inr df) = Inr []) \<and>
   (\<forall>e'. analyze_pair response \<noteq> Inl e') \<and>
   scan_pair (Inl e) = [] \<and>
   (length df < 16 \<longrightarrow> scan_pair (Inr df) = []) \<and>
   length (scan_cycle responses) = length responses"
proof -
  have "analyze_pair response \<noteq> Inl e'" for e'
    using analyze_pair_total [of response] by auto
  then show ?thesis
    using analyze_pair_cold [of df]
    by (simp add: analyze_pair_fetch_error scan_pair_def scan_cycle_def)
qed

theorem skip_on_failure_witness:
  "length (take 10 falling_market) < 16 \<and>
   analyze_pair (Inl FetchError) = Inr [] \<and>
   analyze_pair (Inr (take 10 falling_market)) = Inr [] \<and>
   scan_pair (Inl FetchError) = [] \<and>
   scan_pair (Inr (take 10 falling_market)) = []"
  using skip_on_failure [of FetchError "take 10 falling_market" "Inl FetchError" "[]"]
  by (simp add: falling_market_len)

section \<open>Closed candles\<close>

lemma fm_closed_before:
  "list_all (candle_closed 13501000) (butlast falling_market)"
  by (simp add: falling_market_def candle_closed_def butlast_append upt_rec)

text \<open>
  C2: every series passed to the analysis should hold closed candles only. The frame is
  built from every row the exchange returns, and the analysis takes the last row as the
  pattern candle. On the rows received one second after a boundary, the last row is the
  candle that has just opened; the analysis reports a hammer on it.
\<close>

theorem forming_candle_evaluated:
  "list_all (candle_closed 13501000) (butlast falling_market) \<and>
   \<not> candle_closed 13501000 (last falling_market) \<and>
   fetch_ohlcv_df (Inr falling_market) = Inr falling_market \<and>
   analyze_pair (Inr falling_market) =
     Inr [\<lparr>typ_sig = ''HAMMER'', direction = ''LONG'', price = 99, tme = 13500000,
           meta_rsi = Fin 0, meta_avg_vol = Fin 10, meta_last_vol = 10\<rparr>]"
  by (simp add: fm_closed_before fm_eval fetch_ohlcv_df_def candle_closed_def fm_fields)

section \<open>The range of the relative strength index\<close>

lemma flat_eval:
  "ma_up flat_closes 14 ! 14 = Fin 0 \<and> ma_down flat_closes 14 ! 14 = Fin 0 \<and>
   compute_rsi flat_closes 14 ! 14 = NaN"
  by code_simp

lemma rising_eval:
  "ma_up rising_closes 14 ! 14 = Fin 1 \<and> ma_down rising_closes 14 ! 14 = Fin 0 \<and>
   compute_rsi rising_closes 14 ! 14 = Fin 100"
  by code_simp

text \<open>
  C3, as stated: every RSI value after the warm-up lies between 0 and 100, and a loss
  average of zero gives 100. On prices that do not move, both averages are zero and the
  value is NaN.
\<close>

theorem rsi_flat_window_is_nan:
  "(14::nat) < length flat_closes \<and>
   ma_down flat_closes 14 ! 14 = Fin 0 \<and>
   compute_rsi flat_closes 14 ! 14 = NaN \<and>
   compute_rsi flat_closes 14 ! 14 \<noteq> Fin 100"
proof -
  have "(14::nat) < length flat_closes" by (simp add: flat_closes_def)
  then show ?thesis using flat_eval by simp
qed

text \<open>
  C3, amended: after the warm-up the gain average and the loss average are finite and not
  negative, and the division never raises. The RSI is NaN when both averages are zero, 100
  when only the loss average is zero, and \<open>100 - 100 / (1 + gain / loss)\<close>, a value
  between 0 and 100, otherwise.
\<close>

theorem rsi_after_warmup:
  assumes "0 < period" and "period \<le> i" and "i < length series"
  shows "\<exists>a b.
     a = sum_list (map (\<lambda>j. max (series ! j - series ! (j - 1)) 0) [Suc i - period..<Suc i])
           / real period \<and>
     b = sum_list (map (\<lambda>j. max (- (series ! j - series ! (j - 1))) 0) [Suc i - period..<Suc i])
           / real period \<and>
     ma_up series period ! i = Fin a \<and> ma_down series period ! i = Fin b \<and>
     0 \<le> a \<and> 0 \<le> b \<and>
     compute_rsi series period ! i =
       (if b = 0 then (if a = 0 then NaN else Fin 100) else Fin (100 - 100 / (1 + a / b))) \<and>
     (b \<noteq> 0 \<longrightarrow> 0 \<le> 100 - 100 / (1 + a / b) \<and> 100 - 100 / (1 + a / b) \<le> 100)"
proof -
  define a where
    "a = sum_list (map (\<lambda>j. max (series ! j - series ! (j - 1)) 0) [Suc i - period..<Suc i])
           / real period"
  define b where
    "b = sum_list (map (\<lambda>j. max (- (series ! j - series ! (j - 1))) 0) [Suc i - period..<Suc i])
           / real period"
  have u: "ma_up series period ! i = Fin a"
    unfolding a_def by (rule ma_up_warm [OF assms])
  have d: "ma_down series period ! i = Fin b"
    unfolding b_def by (rule ma_down_warm [OF assms])
  have a0: "0 \<le> a" unfolding a_def by (intro divide_nonneg_nonneg sum_max0_nonneg) simp
  have b0: "0 \<le> b" unfolding b_def by (intro divide_nonneg_nonneg sum_max0_nonneg) simp
  have v: "compute_rsi series period ! i =
       (if b = 0 then (if a = 0 then NaN else Fin 100) else Fin (100 - 100 / (1 + a / b)))"
    using rsi_value [OF a0 b0] by (simp add: compute_rsi_nth [OF assms(3)] u d)
  have r: "0 \<le> 100 - 100 / (1 + a / b) \<and> 100 - 100 / (1 + a / b) \<le> 100" if "b \<noteq> 0"
  proof -
    have "0 < b" using b0 that by simp
    from rsi_range [OF a0 this] show ?thesis by simp
  qed
  show ?thesis
    using u d a0 b0 v r a_def b_def by blast
qed

theorem rsi_after_warmup_witness:
  "(0::nat) < 14 \<and> (14::nat) \<le> 14 \<and> 14 < length rising_closes \<and>
   ma_up rising_closes 14 ! 14 = Fin 1 \<and> ma_down rising_closes 14 ! 14 = Fin 0 \<and>
   compute_rsi rising_closes 14 ! 14 = Fin 100"
proof -
  have h: "(0::nat) < 14" "(14::nat) \<le> 14" "14 < length rising_closes"
    by (simp_all add: rising_closes_def)
  from rsi_after_warmup [OF h] obtain a b where
    "ma_up rising_closes 14 ! 14 = Fin a" "ma_down rising_closes 14 ! 14 = Fin b"
    "compute_rsi rising_closes 14 ! 14 =
       (if b = 0 then (if a = 0 then NaN else Fin 100) else Fin (100 - 100 / (1 + a / b)))"
    by blast
  moreover have "ma_up rising_closes 14 ! 14 = Fin 1" "ma_down rising_closes 14 ! 14 = Fin 0"
    using rising_eval by simp_all
  ultimately show ?thesis using h by simp
qed

end
